theory Spec2Isabelle
  imports Main "HOL-Library.Sublist"
begin

section \<open>A shallow embedding of the dockerclient package\<close>

text \<open>
  The package is a thin client of the Docker daemon's HTTP API. Its own code is the
  address parser \<^verbatim>\<open>ParseURL\<close> (utils.go) and the methods of \<^verbatim>\<open>dockerClient\<close>.
  Everything the methods reach through the Go standard library (the network, the HTTP
  exchange, the JSON codec) is the environment: it is a field of the record \<open>world\<close>
  below, so that every theorem holds for every behaviour of the daemon.
  A Go function returning \<^verbatim>\<open>(T, error)\<close> returns a pair whose second component
  is an \<open>err option\<close>, or a sum where the source returns only zero values with the error;
  a run-time panic is the value \<open>Inl IndexOutOfRange\<close>.
\<close>

subsection \<open>Indexing a slice\<close>

datatype gopanic = IndexOutOfRange

text \<open>\<^verbatim>\<open>xs[i]\<close>: Go panics when the index is out of range.\<close>

definition at_index :: "'a list \<Rightarrow> nat \<Rightarrow> gopanic + 'a" where
  "at_index xs i = (if i < length xs then Inr (xs ! i) else Inl IndexOutOfRange)"

subsection \<open>The address resolver (utils.go)\<close>

text \<open>
  \<^verbatim>\<open>strings.Index(s, sep)\<close>: the position of the first occurrence of \<open>sep\<close> in
  \<open>s\<close>, \<open>None\<close> for Go's \<open>-1\<close>.
\<close>

fun Index :: "string \<Rightarrow> string \<Rightarrow> nat option" where
  "Index [] sep = (if sep = [] then Some 0 else None)"
| "Index (c # cs) sep =
     (if prefix sep (c # cs) then Some 0 else map_option Suc (Index cs sep))"

lemma Index_bound: "Index s sep = Some m \<Longrightarrow> m + length sep \<le> length s"
proof (induction s arbitrary: m)
  case Nil
  then show ?case by (simp split: if_splits)
next
  case (Cons c cs)
  show ?case
  proof (cases "prefix sep (c # cs)")
    case True
    with Cons.prems show ?thesis by (auto dest: prefix_length_le)
  next
    case False
    with Cons.prems obtain k where "Index cs sep = Some k" "m = Suc k" by auto
    with Cons.IH show ?thesis by fastforce
  qed
qed

text \<open>
  \<^verbatim>\<open>strings.Split(s, sep)\<close>, as the library's \<^verbatim>\<open>genSplit\<close> computes it: cut at
  the first occurrence of \<open>sep\<close>, then go on behind it, so \<^emph>\<open>every\<close> occurrence
  cuts. With an empty separator the library explodes \<open>s\<close> into its characters (the
  model: into its bytes); \<open>ParseURL\<close> never takes that branch.
\<close>

function Split :: "string \<Rightarrow> string \<Rightarrow> string list" where
  "Split s sep =
     (if sep = [] then map (\<lambda>c. [c]) s
      else case Index s sep of
             None \<Rightarrow> [s]
           | Some m \<Rightarrow> take m s # Split (drop (m + length sep) s) sep)"
  by pat_completeness auto
termination
proof (relation "measure (\<lambda>(s, sep). length s)")
  show "wf (measure (\<lambda>(s, sep). length s))" by simp
next
  fix s sep :: string and m :: nat
  assume "sep \<noteq> []" and "Index s sep = Some m"
  then have "m + length sep \<le> length s" and "0 < length sep"
    using Index_bound [of s sep m] by simp_all
  then show "((drop (m + length sep) s, sep), (s, sep)) \<in> measure (\<lambda>(s, sep). length s)"
    by (cases sep) simp_all
qed

declare Split.simps [simp del]

text \<open>
  \<^verbatim>\<open>
  func ParseURL(url string) (string, string) {
      arr := strings.Split(url, "://")
      if len(arr) == 1 { return "unix", arr[0] }
      proto := arr[0]
      if proto == "http" { proto = "tcp" }
      return proto, arr[1]
  }
  \<close>
\<close>

definition ParseURL :: "string \<Rightarrow> gopanic + (string \<times> string)" where
  "ParseURL url =
     (let arr = Split url ''://'' in
      if length arr = 1 then
        (case at_index arr 0 of Inl p \<Rightarrow> Inl p | Inr a0 \<Rightarrow> Inr (''unix'', a0))
      else
        (case at_index arr 0 of
           Inl p \<Rightarrow> Inl p
         | Inr proto \<Rightarrow>
             (let proto = (if proto = ''http'' then ''tcp'' else proto) in
              case at_index arr 1 of Inl p \<Rightarrow> Inl p | Inr a1 \<Rightarrow> Inr (proto, a1))))"

subsection \<open>Values, errors and the environment\<close>

text \<open>
  A Go value of type \<^verbatim>\<open>interface{}\<close>, as far as a request body needs it; \<open>GNil\<close>
  is the nil interface. A \<^verbatim>\<open>map[string]interface{}\<close> is a partial function from
  keys to values.
\<close>

datatype gvalue =
    GNil
  | GBool bool
  | GInt int
  | GStr string
  | GList "gvalue list"
  | GMap "string \<Rightarrow> gvalue option"

text \<open>\<^verbatim>\<open>m[k]\<close> on a map of interfaces: the nil interface when the key is absent.\<close>

definition map_index :: "(string \<Rightarrow> gvalue option) \<Rightarrow> string \<Rightarrow> gvalue" where
  "map_index m k = (case m k of None \<Rightarrow> GNil | Some v \<Rightarrow> v)"

text \<open>
  The errors the methods can return. \<open>StatusError code status\<close> is
  \<^verbatim>\<open>fmt.Errorf("invalid HTTP request %d %s", resp.StatusCode, resp.Status)\<close>;
  \<open>ErrPersistEOF\<close> is \<^verbatim>\<open>httputil.ErrPersistEOF\<close>, and \<open>DoError\<close> any other
  error of the exchange;
  \<open>EOF\<close>, \<open>SyntaxError\<close> and \<open>UnmarshalTypeError\<close> are the JSON decoder's;
  \<open>Panicked\<close> stands for a panic of \<open>ParseURL\<close> unwinding through \<open>newConn\<close>
  (\<open>ParseURL\<close> is shown never to panic).
\<close>

datatype err =
    MarshalError
  | NewRequestError
  | DialError
  | DoError
  | ErrPersistEOF
  | StatusError int string
  | EOF
  | SyntaxError
  | UnmarshalTypeError
  | Panicked gopanic

text \<open>
  A response body is a stream of JSON units, each seen as the decoder sees it:
  \<^item> \<open>JObject kvs\<close>: a JSON object whose members are strings (it unmarshals into the
    package's structs; a field without a member keeps its zero value);
  \<^item> \<open>JMismatch\<close>: a complete JSON value that does not unmarshal into the target
    (\<^verbatim>\<open>json.UnmarshalTypeError\<close>);
  \<^item> \<open>JSyntax\<close>: bytes that are not JSON (\<^verbatim>\<open>json.SyntaxError\<close>).

  The members of an object are in the order of the text, repeated keys included. The
  literal \<^verbatim>\<open>null\<close>, which unmarshals without an error and without a value, is not
  among these units.
\<close>

datatype junit = JObject "(string \<times> string) list" | JMismatch | JSyntax

text \<open>
  What the network does with one connection attempt: the dial fails, the exchange
  \<^verbatim>\<open>ClientConn.Do\<close> fails without a response, or the daemon answers with a status
  code, a status text and a body. An answer either leaves the connection open
  (\<open>Responds\<close>) or announces its end (\<open>RespondsClosing\<close>: an HTTP/1.0 answer, an answer
  with \<^verbatim>\<open>Connection: close\<close>, or a body that ends with the connection).
\<close>

datatype outcome =
    DialFails
  | DoFails
  | Responds int string "junit list"
  | RespondsClosing int string "junit list"

text \<open>
  The observable effects, in order: a dial (numbered; the number names the connection),
  a request sent on a connection, the two \<^verbatim>\<open>Close\<close> calls, and the output of
  \<^verbatim>\<open>fmt.Println\<close> and \<^verbatim>\<open>log.Printf\<close> in the event stream.
\<close>

datatype effect =
    Dial nat string string
  | Send nat string string gvalue
  | CloseConn nat
  | CloseBody nat
  | Println err
  | LogCannotDecode err
  | LogClosing

text \<open>
  The environment and the effects so far. \<open>marshals v\<close>: \<^verbatim>\<open>json.Marshal(v)\<close>
  succeeds; \<open>wellformed method uri\<close>: \<^verbatim>\<open>http.NewRequest(method, uri, _)\<close>
  succeeds; \<open>net k\<close>: the outcome of the \<open>k\<close>-th connection attempt (any behaviour
  of the network and the daemon over a run is such a function); \<open>dials\<close>: the attempts
  made; \<open>trace\<close>: the effects, oldest first.
\<close>

record world =
  marshals :: "gvalue \<Rightarrow> bool"
  wellformed :: "string \<Rightarrow> string \<Rightarrow> bool"
  net :: "nat \<Rightarrow> outcome"
  dials :: nat
  trace :: "effect list"

definition emit :: "effect \<Rightarrow> world \<Rightarrow> world" where
  "emit e w = w\<lparr>trace := trace w @ [e]\<rparr>"

text \<open>A world for a scripted daemon: nothing dialled yet, every body and request accepted.\<close>

definition scripted :: "(nat \<Rightarrow> outcome) \<Rightarrow> world" where
  "scripted f = \<lparr>marshals = (\<lambda>v. True), wellformed = (\<lambda>method uri. True), net = f,
                 dials = 0, trace = []\<rparr>"

record dockerClient =
  path :: string

type_synonym conn = nat
type_synonym respBody = "nat \<times> junit list"

definition closeConn :: "conn \<Rightarrow> world \<Rightarrow> world" where
  "closeConn c w = emit (CloseConn c) w"

definition closeBody :: "respBody \<Rightarrow> world \<Rightarrow> world" where
  "closeBody b w = emit (CloseBody (fst b)) w"

subsection \<open>The JSON decoder\<close>

text \<open>
  \<^verbatim>\<open>json.Decoder\<close> (encoding/json, stream.go). Its field \<^verbatim>\<open>err\<close> is sticky:
  \<^verbatim>\<open>Decode\<close> starts with \<^verbatim>\<open>if dec.err != nil { return dec.err }\<close>, and reading
  the next value stores a syntax error (and the end of the input) there before returning
  it. An error of unmarshalling a complete value is not stored (the library's comment:
  the connection is still usable since a complete JSON object was read before the error
  happened): the value is consumed and the next call reads the next one.
\<close>

record decoder =
  input :: "junit list"
  sticky :: "err option"

definition NewDecoder :: "respBody \<Rightarrow> decoder" where
  "NewDecoder b = \<lparr>input = snd b, sticky = None\<rparr>"

definition Decode :: "decoder \<Rightarrow> (err + (string \<times> string) list) \<times> decoder" where
  "Decode dec =
     (case sticky dec of
        Some e \<Rightarrow> (Inl e, dec)
      | None \<Rightarrow>
          (case input dec of
             [] \<Rightarrow> (Inl EOF, dec\<lparr>sticky := Some EOF\<rparr>)
           | JSyntax # rest \<Rightarrow> (Inl SyntaxError, dec\<lparr>sticky := Some SyntaxError\<rparr>)
           | JMismatch # rest \<Rightarrow> (Inl UnmarshalTypeError, dec\<lparr>input := rest\<rparr>)
           | JObject kvs # rest \<Rightarrow> (Inr kvs, dec\<lparr>input := rest\<rparr>)))"

text \<open>
  Unmarshalling an object into a struct: \<^verbatim>\<open>encoding/json\<close> takes the members in
  order and stores each in the field whose name equals the key, or equals it under
  Unicode case folding (\<^verbatim>\<open>bytes.EqualFold\<close>), so the last such member stands. The
  field names of this package are ASCII; the runes that fold to an ASCII letter are the
  letter in its other case, the long s (U+017F, the bytes C5 BF) for \<^verbatim>\<open>s\<close> and the
  Kelvin sign (U+212A, the bytes E2 84 AA) for \<^verbatim>\<open>k\<close>. \<open>foldName\<close> is a normal form
  of a key under these foldings.
\<close>

definition lower :: "char \<Rightarrow> char" where
  "lower c =
     (case map_of (zip ''ABCDEFGHIJKLMNOPQRSTUVWXYZ'' ''abcdefghijklmnopqrstuvwxyz'') c of
        None \<Rightarrow> c
      | Some l \<Rightarrow> l)"

fun foldName :: "string \<Rightarrow> string" where
  "foldName (a # b # c # s) =
     (if [a, b, c] = [CHR 0xE2, CHR 0x84, CHR 0xAA] then CHR ''k'' # foldName s
      else if [a, b] = [CHR 0xC5, CHR 0xBF] then CHR ''s'' # foldName (c # s)
      else lower a # foldName (b # c # s))"
| "foldName [a, b] =
     (if [a, b] = [CHR 0xC5, CHR 0xBF] then ''s'' else [lower a, lower b])"
| "foldName [a] = [lower a]"
| "foldName [] = []"

text \<open>
  The value a string field named \<open>k\<close> has after unmarshalling the object: that of the
  last member whose key matches, the zero value when none does.
\<close>

definition member :: "(string \<times> string) list \<Rightarrow> string \<Rightarrow> string" where
  "member kvs k =
     (case filter (\<lambda>kv. foldName (fst kv) = foldName k) kvs of
        [] \<Rightarrow> ''''
      | m # ms \<Rightarrow> snd (last (m # ms)))"

subsection \<open>The request executor\<close>

text \<open>
  \<^verbatim>\<open>
  func (d *dockerClient) isOkStatus(code int) bool {
      codes := map[int]bool{200: true, 201: true, 204: true,
          400: false, 404: false, 500: false, 409: false, 406: false}
      return codes[code]
  }
  \<close>
  A key the map does not hold reads as the zero value \<^verbatim>\<open>false\<close>.
\<close>

definition codes :: "(int \<times> bool) list" where
  "codes = [(200, True), (201, True), (204, True),
            (400, False), (404, False), (500, False), (409, False), (406, False)]"

definition isOkStatus :: "dockerClient \<Rightarrow> int \<Rightarrow> bool" where
  "isOkStatus d code = (case map_of codes code of None \<Rightarrow> False | Some b \<Rightarrow> b)"

text \<open>
  \<^verbatim>\<open>
  func (d *dockerClient) newConn() (*httputil.ClientConn, error) {
      proto, path := ParseURL(d.path)
      conn, err := net.Dial(proto, path)
      if err != nil { return nil, err }
      return httputil.NewClientConn(conn, nil), nil
  }
  \<close>
\<close>

definition newConn :: "dockerClient \<Rightarrow> world \<Rightarrow> (err + conn) \<times> world" where
  "newConn d w =
     (case ParseURL (path d) of
        Inl p \<Rightarrow> (Inl (Panicked p), w)
      | Inr (proto, addr) \<Rightarrow>
          (let k = dials w;
               w1 = emit (Dial k proto addr) (w\<lparr>dials := Suc k\<rparr>)
           in if net w k = DialFails then (Inl DialError, w1) else (Inr k, w1)))"

text \<open>
  \<^verbatim>\<open>net/http\<close> gives a response no body when its status allows none:
  \<^verbatim>\<open>
  func bodyAllowedForStatus(status int) bool {
      switch {
      case status >= 100 && status <= 199: return false
      case status == 204: return false
      case status == 304: return false
      }
      return true
  }
  \<close>
\<close>

definition bodyAllowedForStatus :: "int \<Rightarrow> bool" where
  "bodyAllowedForStatus status =
     (if 100 \<le> status \<and> status \<le> 199 then False
      else if status = 204 then False
      else if status = 304 then False
      else True)"

definition delivered :: "int \<Rightarrow> junit list \<Rightarrow> junit list" where
  "delivered status content = (if bodyAllowedForStatus status then content else [])"

text \<open>
  \<^verbatim>\<open>c.Do(req)\<close>: the request goes out on connection \<open>c\<close> and the answer is read.
  \<^verbatim>\<open>ClientConn.Read\<close> returns a valid response \<^emph>\<open>together with\<close>
  \<^verbatim>\<open>ErrPersistEOF\<close> when the answer is the last one of the connection
  (\<^verbatim>\<open>if resp.Close { cc.re = ErrPersistEOF; return resp, cc.re }\<close>): the result is
  the response alone, or an error with the response that came with it, if any.
\<close>

definition Do :: "conn \<Rightarrow> string \<Rightarrow> string \<Rightarrow> gvalue \<Rightarrow> world
    \<Rightarrow> ((err \<times> (int \<times> string \<times> respBody) option) + (int \<times> string \<times> respBody)) \<times> world" where
  "Do c method uri body w =
     (let w1 = emit (Send c method uri body) w
      in case net w c of
           Responds code status content \<Rightarrow>
             (Inr (code, status, (c, delivered code content)), w1)
         | RespondsClosing code status content \<Rightarrow>
             (Inl (ErrPersistEOF, Some (code, status, (c, delivered code content))), w1)
         | _ \<Rightarrow> (Inl (DoError, None), w1))"

text \<open>
  \<^verbatim>\<open>
  func (docker *dockerClient) newRequest(method, uri string, body interface{})
          (io.ReadCloser, *httputil.ClientConn, error) {
      bodyJson, err := json.Marshal(body)
      if err != nil { return nil, nil, err }
      req, err := http.NewRequest(method, uri, bytes.NewBuffer(bodyJson))
      if err != nil { return nil, nil, err }
      req.Header.Set("Content-Type", "application/json")
      c, err := docker.newConn()
      if err != nil { return nil, nil, err }
      resp, err := c.Do(req)
      if err != nil { return nil, nil, err }
      if !docker.isOkStatus(resp.StatusCode) {
          return nil, nil, fmt.Errorf("invalid HTTP request %d %s", resp.StatusCode, resp.Status)
      }
      return resp.Body, c, nil
  }
  \<close>
\<close>

definition newRequest :: "dockerClient \<Rightarrow> string \<Rightarrow> string \<Rightarrow> gvalue \<Rightarrow> world
    \<Rightarrow> (err + (respBody \<times> conn)) \<times> world" where
  "newRequest docker method uri body w =
     (if \<not> marshals w body then (Inl MarshalError, w)
      else if \<not> wellformed w method uri then (Inl NewRequestError, w)
      else case newConn docker w of
             (Inl e, w1) \<Rightarrow> (Inl e, w1)
           | (Inr c, w1) \<Rightarrow>
               (case Do c method uri body w1 of
                  (Inl (e, resp), w2) \<Rightarrow> (Inl e, w2)
                | (Inr (code, status, respBody), w2) \<Rightarrow>
                    if \<not> isOkStatus docker code then (Inl (StatusError code status), w2)
                    else (Inr (respBody, c), w2)))"

subsection \<open>Synchronous operations\<close>

text \<open>
  \<^verbatim>\<open>
  func (docker *dockerClient) PullImage(name string) error {
      var ( method = "POST"; uri = fmt.Sprintf("/images/create?fromImage=%s", name) )
      respBody, conn, err := docker.newRequest(method, uri, nil)
      if err != nil { return nil }
      respBody.Close()
      conn.Close()
      return nil
  }
  \<close>
\<close>

definition PullImage :: "dockerClient \<Rightarrow> string \<Rightarrow> world \<Rightarrow> err option \<times> world" where
  "PullImage docker name w =
     (let method = ''POST'';
          uri = ''/images/create?fromImage='' @ name
      in case newRequest docker method uri GNil w of
           (Inl e, w1) \<Rightarrow> (None, w1)
         | (Inr (respBody, conn), w1) \<Rightarrow> (None, closeConn conn (closeBody respBody w1)))"

text \<open>\<^verbatim>\<open>strconv.FormatBool\<close>.\<close>

definition FormatBool :: "bool \<Rightarrow> string" where
  "FormatBool b = (if b then ''true'' else ''false'')"

text \<open>
  \<^verbatim>\<open>
  func (docker *dockerClient) RemoveContainer(name string, force, volumes bool) error {
      var ( method = "DELETE"
            uri = fmt.Sprintf("/containers/%s?force=%s&volumes=%s", name,
                    strconv.FormatBool(force), strconv.FormatBool(volumes)) )
      respBody, conn, err := docker.newRequest(method, uri, nil)
      if err != nil { return err }
      respBody.Close()
      conn.Close()
      return nil
  }
  \<close>
\<close>

definition RemoveContainer :: "dockerClient \<Rightarrow> string \<Rightarrow> bool \<Rightarrow> bool \<Rightarrow> world
    \<Rightarrow> err option \<times> world" where
  "RemoveContainer docker name force volumes w =
     (let method = ''DELETE'';
          uri = ''/containers/'' @ name @ ''?force='' @ FormatBool force
                  @ ''&volumes='' @ FormatBool volumes
      in case newRequest docker method uri GNil w of
           (Inl e, w1) \<Rightarrow> (Some e, w1)
         | (Inr (respBody, conn), w1) \<Rightarrow> (None, closeConn conn (closeBody respBody w1)))"

text \<open>
  \<^verbatim>\<open>
  func (docker *dockerClient) CreateContainer(container map[string]interface{}) (string, error) {
      var ( method = "POST"; name string; uri = "/containers/create" )
      if _, exists := container["Name"]; exists {
          uri = fmt.Sprintf("%s?name=%v", uri, name)
      }
      delete(container, "Name")
      respBody, conn, err := docker.newRequest(method, uri, container)
      if err != nil { return "", err }
      defer respBody.Close()
      defer conn.Close()
      type createResp struct { Id string }
      var respData createResp
      err = json.NewDecoder(respBody).Decode(&respData)
      if err != nil { return name, err }
      name = respData.Id
      return name, nil
  }
  \<close>
  A Go map is shared with the caller, so the map after \<^verbatim>\<open>delete\<close> is part of the
  result. The deferred calls run last in, first out: \<^verbatim>\<open>conn.Close()\<close>, then
  \<^verbatim>\<open>respBody.Close()\<close>.
\<close>

definition CreateContainer :: "dockerClient \<Rightarrow> (string \<Rightarrow> gvalue option) \<Rightarrow> world
    \<Rightarrow> (string \<times> err option) \<times> (string \<Rightarrow> gvalue option) \<times> world" where
  "CreateContainer docker container w =
     (let method = ''POST'';
          name = '''';
          uri = ''/containers/create'';
          uri = (if container ''Name'' \<noteq> None then uri @ ''?name='' @ name else uri);
          container = container(''Name'' := None)
      in case newRequest docker method uri (GMap container) w of
           (Inl e, w1) \<Rightarrow> (('''', Some e), container, w1)
         | (Inr (respBody, conn), w1) \<Rightarrow>
             (case fst (Decode (NewDecoder respBody)) of
                Inl e \<Rightarrow> ((name, Some e), container, closeBody respBody (closeConn conn w1))
              | Inr respData \<Rightarrow>
                  ((member respData ''Id'', None), container,
                   closeBody respBody (closeConn conn w1))))"

text \<open>
  \<^verbatim>\<open>
  func (docker *dockerClient) StartContainer(name string, hostConfig interface{}) error {
      var ( method = "POST"; uri = fmt.Sprintf("/containers/%s/start", name) )
      respBody, conn, err := docker.newRequest(method, uri, hostConfig)
      if err != nil { return err }
      defer respBody.Close()
      defer conn.Close()
      return nil
  }
  \<close>
\<close>

definition StartContainer :: "dockerClient \<Rightarrow> string \<Rightarrow> gvalue \<Rightarrow> world \<Rightarrow> err option \<times> world" where
  "StartContainer docker name hostConfig w =
     (let method = ''POST'';
          uri = ''/containers/'' @ name @ ''/start''
      in case newRequest docker method uri hostConfig w of
           (Inl e, w1) \<Rightarrow> (Some e, w1)
         | (Inr (respBody, conn), w1) \<Rightarrow> (None, closeBody respBody (closeConn conn w1)))"

text \<open>
  \<^verbatim>\<open>
  func (docker *dockerClient) RunContainer(config map[string]interface{}) (string, error) {
      name, err := docker.CreateContainer(config)
      if err != nil { return "", err }
      return name, docker.StartContainer(name, config["HostConfig"])
  }
  \<close>
  \<^verbatim>\<open>config\<close> is read after \<open>CreateContainer\<close> has changed it.
\<close>

definition RunContainer :: "dockerClient \<Rightarrow> (string \<Rightarrow> gvalue option) \<Rightarrow> world
    \<Rightarrow> (string \<times> err option) \<times> (string \<Rightarrow> gvalue option) \<times> world" where
  "RunContainer docker config w =
     (case CreateContainer docker config w of
        ((name, Some e), config1, w1) \<Rightarrow> (('''', Some e), config1, w1)
      | ((name, None), config1, w1) \<Rightarrow>
          (case StartContainer docker name (map_index config1 ''HostConfig'') w1 of
             (e, w2) \<Rightarrow> ((name, e), config1, w2)))"

subsection \<open>The event stream\<close>

record Event =
  ContainerId :: string
  Status :: string

text \<open>Unmarshalling into \<^verbatim>\<open>Event\<close>: the members tagged \<^verbatim>\<open>id\<close> and \<^verbatim>\<open>status\<close>.\<close>

definition toEvent :: "(string \<times> string) list \<Rightarrow> Event" where
  "toEvent kvs = \<lparr>ContainerId = member kvs ''id'', Status = member kvs ''status''\<rparr>"

text \<open>A run that may not end: the state it returned with, or the state the fuel ran out in.\<close>

datatype 'a run = Returned 'a | OutOfFuel 'a

text \<open>
  The loop of the goroutine, one unit of fuel per iteration; the channel is the list of
  the events sent so far (the consumer is taken to keep reading, so a send never blocks).
  \<^verbatim>\<open>
  dec := json.NewDecoder(respBody)
  for {
      var event *Event
      if err := dec.Decode(&event); err != nil {
          if err == io.EOF { break }
          log.Printf("cannot decode json: %s", err)
          continue
      }
      eventChan <- event
  }
  \<close>
\<close>

fun eventLoop :: "nat \<Rightarrow> decoder \<Rightarrow> Event list \<Rightarrow> world \<Rightarrow> (Event list \<times> world) run" where
  "eventLoop 0 dec eventChan w = OutOfFuel (eventChan, w)"
| "eventLoop (Suc n) dec eventChan w =
     (case Decode dec of
        (Inl e, dec1) \<Rightarrow>
          if e = EOF then Returned (eventChan, w)
          else eventLoop n dec1 eventChan (emit (LogCannotDecode e) w)
      | (Inr kvs, dec1) \<Rightarrow> eventLoop n dec1 (eventChan @ [toEvent kvs]) w)"

text \<open>
  The goroutine of \<^verbatim>\<open>GetEvents\<close> without its signal watcher (which only acts on a
  process signal): the request, the loop, the last log line and the deferred
  \<^verbatim>\<open>close(eventChan)\<close>. The result is the events sent, whether the channel is
  closed, and the world.
\<close>

definition GetEvents :: "nat \<Rightarrow> dockerClient \<Rightarrow> world \<Rightarrow> (Event list \<times> bool \<times> world) run" where
  "GetEvents fuel d w =
     (case newRequest d ''GET'' ''/events'' GNil w of
        (Inl e, w1) \<Rightarrow> Returned ([], True, emit (Println e) w1)
      | (Inr (respBody, conn), w1) \<Rightarrow>
          (case eventLoop fuel (NewDecoder respBody) [] w1 of
             OutOfFuel (eventChan, w2) \<Rightarrow> OutOfFuel (eventChan, False, w2)
           | Returned (eventChan, w2) \<Rightarrow> Returned (eventChan, True, emit LogClosing w2)))"

subsection \<open>Daemon information\<close>

record DaemonInfo =
  Containers :: int
  Debug :: int
  Driver :: string
  DriverStatus :: "string list list"
  ExecutionDriver :: string
  IPv4Forwarding :: int
  Images :: int
  IndexServerAddress :: string
  InitPath :: string
  InitSha1 :: string
  KernelVersion :: string
  MemoryLimit :: int
  NEventsListener :: int
  NFd :: int
  NGoroutines :: int
  Sockets :: "string list"
  SwapLimit :: int

text \<open>
  \<^verbatim>\<open>
  func (d *DaemonInfo) RootPath() string {
      for _, i := range d.DriverStatus {
          if i[0] == "Root Dir" { return i[1] }
      }
      return ""
  }
  \<close>
\<close>

fun RootPath_rows :: "string list list \<Rightarrow> gopanic + string" where
  "RootPath_rows [] = Inr ''''"
| "RootPath_rows (i # rest) =
     (case at_index i 0 of
        Inl p \<Rightarrow> Inl p
      | Inr i0 \<Rightarrow> if i0 = ''Root Dir'' then at_index i 1 else RootPath_rows rest)"

definition RootPath :: "DaemonInfo \<Rightarrow> gopanic + string" where
  "RootPath d = RootPath_rows (DriverStatus d)"

subsection \<open>Reading a trace\<close>

text \<open>The requests sent, oldest first: method, URI and body of every \<open>Send\<close>.\<close>

fun requests :: "effect list \<Rightarrow> (string \<times> string \<times> gvalue) list" where
  "requests [] = []"
| "requests (Send c method uri body # es) = (method, uri, body) # requests es"
| "requests (e # es) = requests es"

text \<open>
  The URI \<open>CreateContainer\<close> builds (its \<^verbatim>\<open>name\<close> is the empty string when
  \<^verbatim>\<open>Sprintf\<close> formats it), and the URI \<open>StartContainer\<close> builds.
\<close>

definition create_uri :: "(string \<Rightarrow> gvalue option) \<Rightarrow> string" where
  "create_uri container =
     (if container ''Name'' \<noteq> None then ''/containers/create?name='' else ''/containers/create'')"

definition start_uri :: "string \<Rightarrow> string" where
  "start_uri name = ''/containers/'' @ name @ ''/start''"

text \<open>The events among the units of a body, in order.\<close>

fun events_of :: "junit list \<Rightarrow> Event list" where
  "events_of [] = []"
| "events_of (JObject kvs # us) = toEvent kvs # events_of us"
| "events_of (u # us) = events_of us"

text \<open>A \<^verbatim>\<open>DaemonInfo\<close> with the given driver status, every other field zero.\<close>

definition info :: "string list list \<Rightarrow> DaemonInfo" where
  "info rows = \<lparr>Containers = 0, Debug = 0, Driver = '''', DriverStatus = rows,
     ExecutionDriver = '''', IPv4Forwarding = 0, Images = 0, IndexServerAddress = '''',
     InitPath = '''', InitSha1 = '''', KernelVersion = '''', MemoryLimit = 0,
     NEventsListener = 0, NFd = 0, NGoroutines = 0, Sockets = [], SwapLimit = 0\<rparr>"

section \<open>Properties\<close>

subsection \<open>Shared facts\<close>

lemma Index_None_iff: "Index s sep = None \<longleftrightarrow> \<not> sublist sep s"
  by (induction s) (auto simp: sublist_Cons_right)

lemma Split_not_Nil: "sep \<noteq> [] \<Longrightarrow> Split s sep \<noteq> []"
  by (subst Split.simps) (simp split: option.split)

lemma ParseURL_total: "\<exists>proto endpoint. ParseURL url = Inr (proto, endpoint)"
proof (cases "Index url ''://''")
  case None
  then show ?thesis by (simp add: ParseURL_def Split.simps at_index_def)
next
  case (Some m)
  obtain b bs where "Split (drop (m + length ''://'') url) ''://'' = b # bs"
    using Split_not_Nil [of "''://''" "drop (m + length ''://'') url"]
    by (cases "Split (drop (m + length ''://'') url) ''://''") auto
  with Some have "Split url ''://'' = take m url # b # bs"
    by (subst Split.simps) simp
  then show ?thesis by (simp add: ParseURL_def at_index_def Let_def)
qed

lemma ParseURL_tcp: "ParseURL ''tcp://127.0.0.1:2375'' = Inr (''tcp'', ''127.0.0.1:2375'')"
  by (simp add: ParseURL_def Split.simps at_index_def)

lemma isOkStatus_iff: "isOkStatus d code \<longleftrightarrow> code \<in> {200, 201, 204}"
  by (simp add: isOkStatus_def codes_def)

text \<open>The unfolding rules that run a method against a scripted daemon.\<close>

lemmas run_simps = newRequest_def newConn_def Do_def emit_def Let_def isOkStatus_def codes_def
  scripted_def closeConn_def closeBody_def ParseURL_tcp delivered_def bodyAllowedForStatus_def

text \<open>The unfolding rules that decode a scripted body.\<close>

lemmas json_simps = NewDecoder_def Decode_def member_def toEvent_def lower_def

text \<open>Keys match whatever their case, and the last matching member stands.\<close>

lemma member_folds_and_keeps_last:
  "member [(''ID'', ''x''), (''Other'', ''o''), (''id'', ''y'')] ''Id'' = ''y'' \<and>
   member [(''Id'', ''abc'')] ''Id'' = ''abc'' \<and>
   member [(''Name'', ''n'')] ''Id'' = '''' \<and>
   member [([CHR 0xC5, CHR 0xBF] @ ''TATU'' @ [CHR 0xC5, CHR 0xBF], ''die'')] ''status'' = ''die'' \<and>
   foldName [CHR 0xE2, CHR 0x84, CHR 0xAA] = ''k''"
  by (simp add: member_def lower_def)

lemma newRequest_responds:
  assumes "marshals w body" and "wellformed w method uri"
    and "net w (dials w) = Responds code status content"
    and "ParseURL (path docker) = Inr (proto, addr)"
  shows "newRequest docker method uri body w =
     (if code \<in> {200, 201, 204} then Inr ((dials w, delivered code content), dials w)
      else Inl (StatusError code status),
      w\<lparr>dials := Suc (dials w),
        trace := trace w @ [Dial (dials w) proto addr, Send (dials w) method uri body]\<rparr>)"
  using assms
  by (simp add: newRequest_def newConn_def Do_def emit_def Let_def isOkStatus_iff)

lemma requests_append: "requests (xs @ ys) = requests xs @ requests ys"
  by (induction xs rule: requests.induct) simp_all

lemma newRequest_trace:
  "\<exists>sfx. trace (snd (newRequest docker method uri body w)) = trace w @ sfx \<and>
     set (requests sfx) \<subseteq> {(method, uri, body)}"
  by (auto simp: newRequest_def newConn_def Do_def emit_def Let_def
      split: sum.splits prod.splits outcome.splits)

lemma CreateContainer_deletes_Name:
  "fst (snd (CreateContainer docker container w)) = container(''Name'' := None)"
  by (simp add: CreateContainer_def Let_def split: prod.split sum.split)

lemma CreateContainer_trace:
  "\<exists>sfx. trace (snd (snd (CreateContainer docker container w))) = trace w @ sfx \<and>
     set (requests sfx) \<subseteq>
       {(''POST'', create_uri container, GMap (container(''Name'' := None)))}"
proof -
  let ?uri = "create_uri container" and ?body = "GMap (container(''Name'' := None))"
  obtain sfx where s: "trace (snd (newRequest docker ''POST'' ?uri ?body w)) = trace w @ sfx"
    "set (requests sfx) \<subseteq> {(''POST'', ?uri, ?body)}"
    using newRequest_trace by blast
  show ?thesis
  proof (cases "newRequest docker ''POST'' ?uri ?body w")
    case (Pair r w1)
    with s have t: "trace w1 = trace w @ sfx" by simp
    show ?thesis
    proof (cases r)
      case (Inl e)
      with Pair t s(2) show ?thesis
        by (auto simp: CreateContainer_def create_uri_def Let_def)
    next
      case (Inr bc)
      obtain b c where "bc = (b, c)" by (cases bc)
      with Inr Pair t s(2) have
        "trace (snd (snd (CreateContainer docker container w))) =
           trace w @ (sfx @ [CloseConn c, CloseBody (fst b)])"
        by (auto simp: CreateContainer_def create_uri_def Let_def closeConn_def closeBody_def
            emit_def split: sum.splits)
      moreover have "requests (sfx @ [CloseConn c, CloseBody (fst b)]) = requests sfx"
        by (simp add: requests_append)
      ultimately show ?thesis using s(2) by metis
    qed
  qed
qed

lemma StartContainer_trace:
  "\<exists>sfx. trace (snd (StartContainer docker name hostConfig w)) = trace w @ sfx \<and>
     set (requests sfx) \<subseteq> {(''POST'', start_uri name, hostConfig)}"
proof -
  let ?uri = "start_uri name"
  obtain sfx where s: "trace (snd (newRequest docker ''POST'' ?uri hostConfig w)) = trace w @ sfx"
    "set (requests sfx) \<subseteq> {(''POST'', ?uri, hostConfig)}"
    using newRequest_trace by blast
  show ?thesis
  proof (cases "newRequest docker ''POST'' ?uri hostConfig w")
    case (Pair r w1)
    with s have t: "trace w1 = trace w @ sfx" by simp
    show ?thesis
    proof (cases r)
      case (Inl e)
      with Pair t s(2) show ?thesis
        by (auto simp: StartContainer_def Let_def start_uri_def)
    next
      case (Inr bc)
      obtain b c where "bc = (b, c)" by (cases bc)
      with Inr Pair t s(2) have
        "trace (snd (StartContainer docker name hostConfig w)) =
           trace w @ (sfx @ [CloseConn c, CloseBody (fst b)])"
        by (auto simp: StartContainer_def Let_def closeConn_def closeBody_def emit_def
            start_uri_def)
      moreover have "requests (sfx @ [CloseConn c, CloseBody (fst b)]) = requests sfx"
        by (simp add: requests_append)
      ultimately show ?thesis using s(2) by metis
    qed
  qed
qed

lemma create_uri_not_start: "create_uri container \<noteq> start_uri n"
proof
  assume a: "create_uri container = start_uri n"
  have "last (start_uri n) = CHR ''t''" by (simp add: start_uri_def)
  with a have "last (create_uri container) = CHR ''t''" by simp
  then show False by (simp add: create_uri_def split: if_splits)
qed

subsection \<open>The request executor\<close>

text \<open>
  An answer that leaves the connection open (the body is serializable, the request well
  formed): \<open>newRequest\<close> succeeds exactly when the code is 200, 201 or 204, and then
  returns the response body and the connection, neither of them closed: the world has
  gained the dial and the request and nothing else. For every other code, listed in
  \<open>codes\<close> or not, the result is the same error \<open>StatusError code status\<close>, carrying
  the code and the status text.
\<close>

lemma newRequest_allow_list_on_open_connection:
  assumes "marshals w body" and "wellformed w method uri"
    and "net w (dials w) = Responds code status content"
  shows "(isOkStatus docker code \<longleftrightarrow> code \<in> {200, 201, 204}) \<and>
     fst (newRequest docker method uri body w) =
       (if code \<in> {200, 201, 204} then Inr ((dials w, delivered code content), dials w)
        else Inl (StatusError code status)) \<and>
     (\<exists>proto addr. ParseURL (path docker) = Inr (proto, addr) \<and>
        snd (newRequest docker method uri body w) =
          w\<lparr>dials := Suc (dials w),
            trace := trace w @ [Dial (dials w) proto addr, Send (dials w) method uri body]\<rparr>)"
proof -
  obtain proto addr where p: "ParseURL (path docker) = Inr (proto, addr)"
    using ParseURL_total by blast
  from newRequest_responds [OF assms p] p isOkStatus_iff show ?thesis
    by (simp only: fst_conv snd_conv) blast
qed

text \<open>
  An answer that ends the connection: whatever its status code, \<open>newRequest\<close> returns
  \<open>ErrPersistEOF\<close>, the error \<^verbatim>\<open>c.Do\<close> hands over together with the response;
  the status is never looked at.
\<close>

lemma newRequest_on_closing_answer:
  assumes "marshals w body" and "wellformed w method uri"
    and "net w (dials w) = RespondsClosing code status content"
  shows "fst (newRequest docker method uri body w) = Inl ErrPersistEOF"
proof -
  obtain proto addr where p: "ParseURL (path docker) = Inr (proto, addr)"
    using ParseURL_total by blast
  with assms show ?thesis
    by (simp add: newRequest_def newConn_def Do_def emit_def Let_def)
qed

text \<open>
  Claim C1, at the daemon that answers \<^verbatim>\<open>200 OK\<close> and at the daemon that answers
  \<^verbatim>\<open>404 Not Found\<close>, each with \<^verbatim>\<open>Connection: close\<close>. \<^verbatim>\<open>c.Do\<close> returns the
  response together with \<open>ErrPersistEOF\<close>, and \<open>newRequest\<close> returns on any error of
  \<^verbatim>\<open>c.Do\<close> before it checks the status: the 200 fails, and the error of the 404
  carries neither the code nor the status text. (The same two answers on a connection
  that stays open give the body and the connection, and \<open>StatusError 404\<close>; the
  unlisted 418 is rejected like the listed 404.)
\<close>

theorem newRequest_fails_on_closing_answer:
  "fst (newRequest \<lparr>path = ''tcp://127.0.0.1:2375''\<rparr> ''GET'' ''/containers/json'' GNil
          (scripted (\<lambda>k. RespondsClosing 200 ''200 OK'' [JObject [(''Id'', ''abc'')]]))) =
     Inl ErrPersistEOF \<and>
   fst (newRequest \<lparr>path = ''tcp://127.0.0.1:2375''\<rparr> ''GET'' ''/containers/json'' GNil
          (scripted (\<lambda>k. RespondsClosing 404 ''404 Not Found'' []))) =
     Inl ErrPersistEOF \<and>
   fst (newRequest \<lparr>path = ''tcp://127.0.0.1:2375''\<rparr> ''GET'' ''/containers/json'' GNil
          (scripted (\<lambda>k. Responds 200 ''200 OK'' [JObject [(''Id'', ''abc'')]]))) =
     Inr ((0, [JObject [(''Id'', ''abc'')]]), 0) \<and>
   fst (newRequest \<lparr>path = ''tcp://127.0.0.1:2375''\<rparr> ''GET'' ''/containers/json'' GNil
          (scripted (\<lambda>k. Responds 404 ''404 Not Found'' []))) =
     Inl (StatusError 404 ''404 Not Found'') \<and>
   fst (newRequest \<lparr>path = ''tcp://127.0.0.1:2375''\<rparr> ''GET'' ''/containers/json'' GNil
          (scripted (\<lambda>k. Responds 418 ''418 teapot'' []))) =
     Inl (StatusError 418 ''418 teapot'')"
  by (simp add: run_simps)

text \<open>
  Claim C3, at the daemon that answers 404. \<open>newRequest\<close> has dialled connection 0 and
  sent the request on it; the status check then returns the error and drops the
  connection, which nobody can close any more: the trace of \<open>StartContainer\<close> ends
  with the request, and \<open>CloseConn 0\<close> occurs in it zero times, not once. (Against a
  daemon that answers 204 the caller's deferred call closes the connection once.)
\<close>

theorem rejected_response_leaks_connection:
  "trace (snd (StartContainer \<lparr>path = ''tcp://127.0.0.1:2375''\<rparr> ''c1'' GNil
          (scripted (\<lambda>k. Responds 404 ''404 Not Found'' [])))) =
     [Dial 0 ''tcp'' ''127.0.0.1:2375'', Send 0 ''POST'' ''/containers/c1/start'' GNil] \<and>
   count_list (trace (snd (StartContainer \<lparr>path = ''tcp://127.0.0.1:2375''\<rparr> ''c1'' GNil
          (scripted (\<lambda>k. Responds 404 ''404 Not Found'' []))))) (CloseConn 0) = 0 \<and>
   count_list (trace (snd (StartContainer \<lparr>path = ''tcp://127.0.0.1:2375''\<rparr> ''c1'' GNil
          (scripted (\<lambda>k. Responds 204 ''204 No Content'' []))))) (CloseConn 0) = 1"
  by (simp add: StartContainer_def run_simps)


text \<open>
  Once \<open>newRequest\<close> has returned the connection, \<open>CreateContainer\<close> closes it once,
  whether the response decodes or not.
\<close>

lemma CreateContainer_closes_once:
  assumes "newRequest docker ''POST'' (create_uri container) (GMap (container(''Name'' := None))) w
             = (Inr (b, c), w1)"
  shows "trace (snd (snd (CreateContainer docker container w))) =
           trace w1 @ [CloseConn c, CloseBody (fst b)]"
  using assms
  by (simp add: CreateContainer_def create_uri_def Let_def closeConn_def closeBody_def emit_def
      split: sum.split if_splits)

subsection \<open>Pulling an image\<close>

text \<open>
  Claim C2, at the image \<^verbatim>\<open>busybox\<close> and the daemon that answers 404 (and at the
  daemon that cannot be dialled). The request of \<open>PullImage\<close> fails with
  \<open>StatusError 404\<close>, and \<open>PullImage\<close> returns no error: its error branch is
  \<^verbatim>\<open>return nil\<close>. \<open>RemoveContainer\<close>, written the same way but for
  \<^verbatim>\<open>return err\<close>, returns the failure.
\<close>

theorem PullImage_swallows_request_error:
  "fst (newRequest \<lparr>path = ''tcp://127.0.0.1:2375''\<rparr> ''POST'' ''/images/create?fromImage=busybox'' GNil
          (scripted (\<lambda>k. Responds 404 ''404 Not Found'' []))) = Inl (StatusError 404 ''404 Not Found'') \<and>
   fst (PullImage \<lparr>path = ''tcp://127.0.0.1:2375''\<rparr> ''busybox''
          (scripted (\<lambda>k. Responds 404 ''404 Not Found'' []))) = None \<and>
   fst (PullImage \<lparr>path = ''tcp://127.0.0.1:2375''\<rparr> ''busybox''
          (scripted (\<lambda>k. DialFails))) = None \<and>
   fst (RemoveContainer \<lparr>path = ''tcp://127.0.0.1:2375''\<rparr> ''busybox'' False False
          (scripted (\<lambda>k. Responds 404 ''404 Not Found'' []))) = Some (StatusError 404 ''404 Not Found'')"
  by (simp add: PullImage_def RemoveContainer_def run_simps)

subsection \<open>Creating a container\<close>

text \<open>
  Claim C4, at the specification \<^verbatim>\<open>{"Name": "foo"}\<close>. The body sent has no
  \<^verbatim>\<open>Name\<close> member, as the claim says, but the query string is \<^verbatim>\<open>?name=\<close> with
  nothing behind it: the local variable \<^verbatim>\<open>name\<close> that \<^verbatim>\<open>Sprintf\<close> formats is
  still the empty string, and the value \<^verbatim>\<open>foo\<close> of the map is never read.
\<close>

theorem CreateContainer_sends_empty_name:
  "fst (snd (CreateContainer \<lparr>path = ''tcp://127.0.0.1:2375''\<rparr> [''Name'' \<mapsto> GStr ''foo'']
          (scripted (\<lambda>k. Responds 201 ''201 Created'' [JObject [(''Id'', ''abc'')]])))) = Map.empty \<and>
   trace (snd (snd (CreateContainer \<lparr>path = ''tcp://127.0.0.1:2375''\<rparr> [''Name'' \<mapsto> GStr ''foo'']
          (scripted (\<lambda>k. Responds 201 ''201 Created'' [JObject [(''Id'', ''abc'')]]))))) =
     [Dial 0 ''tcp'' ''127.0.0.1:2375'',
      Send 0 ''POST'' ''/containers/create?name='' (GMap Map.empty),
      CloseConn 0, CloseBody 0]"
  by (simp add: CreateContainer_def json_simps run_simps)

subsection \<open>The address resolver\<close>

lemma sep_no_overlap:
  assumes "\<not> sublist ''://'' (c # l)"
  shows "\<not> prefix ''://'' (c # l @ ''://'' @ r)"
proof
  assume p: "prefix ''://'' (c # l @ ''://'' @ r)"
  show False
  proof (cases l)
    case Nil
    with p show False by simp
  next
    case (Cons x l1)
    show False
    proof (cases l1)
      case Nil
      with p Cons show False by simp
    next
      case (Cons y l2)
      with p \<open>l = x # l1\<close> have "prefix ''://'' (c # l)" by auto
      with assms show False by (simp add: sublist_Cons_right)
    qed
  qed
qed

lemma Index_first_sep:
  "\<not> sublist ''://'' l \<Longrightarrow> Index (l @ ''://'' @ r) ''://'' = Some (length l)"
proof (induction l)
  case Nil
  show ?case by simp
next
  case (Cons c l)
  from Cons.prems have "\<not> sublist ''://'' l" by (simp add: sublist_Cons_right)
  with Cons.IH have "Index (l @ ''://'' @ r) ''://'' = Some (length l)" .
  moreover from Cons.prems have "\<not> prefix ''://'' (c # l @ ''://'' @ r)"
    by (rule sep_no_overlap)
  ultimately show ?case by simp
qed

lemma Split_no_sep: "\<not> sublist ''://'' s \<Longrightarrow> Split s ''://'' = [s]"
  using Index_None_iff [of s "''://''"] by (simp add: Split.simps)

lemma Split_first_sep:
  "\<not> sublist ''://'' l \<Longrightarrow> Split (l @ ''://'' @ r) ''://'' = l # Split r ''://''"
  using Index_first_sep [of l r] by (subst Split.simps) simp

text \<open>
  What \<open>ParseURL\<close> computes. It never panics. A string without the separator is the
  endpoint of the scheme \<^verbatim>\<open>unix\<close>. Otherwise the scheme is the text before the
  first separator (\<^verbatim>\<open>http\<close> read as \<^verbatim>\<open>tcp\<close>), and the endpoint is the text
  between the first separator and the second: all of the right side when it holds no
  further separator, as claim C5 says, but only its first piece when it does.
\<close>

lemma ParseURL_splits_at_separators:
  "(\<not> sublist ''://'' url \<longrightarrow> ParseURL url = Inr (''unix'', url)) \<and>
   (\<forall>l r. url = l @ ''://'' @ r \<and> \<not> sublist ''://'' l \<and> \<not> sublist ''://'' r \<longrightarrow>
      ParseURL url = Inr (if l = ''http'' then ''tcp'' else l, r)) \<and>
   (\<forall>l m r. url = l @ ''://'' @ m @ ''://'' @ r \<and> \<not> sublist ''://'' l \<and> \<not> sublist ''://'' m \<longrightarrow>
      ParseURL url = Inr (if l = ''http'' then ''tcp'' else l, m)) \<and>
   (\<exists>proto endpoint. ParseURL url = Inr (proto, endpoint))"
proof (intro conjI allI impI)
  assume "\<not> sublist ''://'' url"
  then show "ParseURL url = Inr (''unix'', url)"
    by (simp add: ParseURL_def Split_no_sep at_index_def)
next
  fix l r
  assume "url = l @ ''://'' @ r \<and> \<not> sublist ''://'' l \<and> \<not> sublist ''://'' r"
  then have u: "url = l @ ''://'' @ r" and nl: "\<not> sublist ''://'' l"
    and nr: "\<not> sublist ''://'' r" by blast+
  have "Split url ''://'' = l # Split r ''://''"
    unfolding u using nl by (rule Split_first_sep)
  also have "Split r ''://'' = [r]"
    using nr by (rule Split_no_sep)
  finally have "Split url ''://'' = [l, r]" .
  then show "ParseURL url = Inr (if l = ''http'' then ''tcp'' else l, r)"
    by (simp add: ParseURL_def at_index_def)
next
  fix l m r
  assume "url = l @ ''://'' @ m @ ''://'' @ r \<and> \<not> sublist ''://'' l \<and> \<not> sublist ''://'' m"
  then have u: "url = l @ ''://'' @ m @ ''://'' @ r" and nl: "\<not> sublist ''://'' l"
    and nm: "\<not> sublist ''://'' m" by blast+
  have "Split url ''://'' = l # Split (m @ ''://'' @ r) ''://''"
    unfolding u using nl by (rule Split_first_sep)
  also have "Split (m @ ''://'' @ r) ''://'' = m # Split r ''://''"
    using nm by (rule Split_first_sep)
  finally have "Split url ''://'' = l # m # Split r ''://''" .
  then show "ParseURL url = Inr (if l = ''http'' then ''tcp'' else l, m)"
    by (simp add: ParseURL_def at_index_def)
next
  show "\<exists>proto endpoint. ParseURL url = Inr (proto, endpoint)"
    by (rule ParseURL_total)
qed

text \<open>
  Claim C5, at \<^verbatim>\<open>tcp://a://b\<close> and at \<^verbatim>\<open>unix:///var/run/a://b.sock\<close>.
  Everything after the first separator is \<^verbatim>\<open>a://b\<close> and
  \<^verbatim>\<open>/var/run/a://b.sock\<close>; the endpoints returned are \<^verbatim>\<open>a\<close> and
  \<^verbatim>\<open>/var/run/a\<close>: \<^verbatim>\<open>strings.Split\<close> has cut at the second separator too, and
  \<^verbatim>\<open>arr[1]\<close> is the piece before it. (With one separator or none the result is as
  the claim says.)
\<close>

theorem ParseURL_drops_text_after_second_separator:
  "ParseURL ''tcp://a://b'' = Inr (''tcp'', ''a'') \<and> ''a'' \<noteq> ''a://b'' \<and>
   ParseURL ''unix:///var/run/a://b.sock'' = Inr (''unix'', ''/var/run/a'') \<and>
   ParseURL ''unix:///var/run/x.sock'' = Inr (''unix'', ''/var/run/x.sock'') \<and>
   ParseURL ''http://h:1'' = Inr (''tcp'', ''h:1'') \<and>
   ParseURL ''/var/run/x.sock'' = Inr (''unix'', ''/var/run/x.sock'')"
  by (simp add: ParseURL_def Split.simps at_index_def)

subsection \<open>Creating a container: the caller's map\<close>

text \<open>
  Claim C10. Whatever the map and whatever becomes of the request, the map
  \<open>CreateContainer\<close> leaves to its caller is the map it was given without the key
  \<^verbatim>\<open>Name\<close>: that key is absent, and every other key reads as before.
\<close>

theorem CreateContainer_deletes_only_Name:
  "fst (snd (CreateContainer docker container w)) = container(''Name'' := None) \<and>
   fst (snd (CreateContainer docker container w)) ''Name'' = None \<and>
   (\<forall>k. k \<noteq> ''Name'' \<longrightarrow> fst (snd (CreateContainer docker container w)) k = container k)"
  by (simp add: CreateContainer_deletes_Name)

theorem CreateContainer_deletes_only_Name_witness:
  "fst (CreateContainer \<lparr>path = ''tcp://127.0.0.1:2375''\<rparr>
       [''Image'' \<mapsto> GStr ''busybox'', ''Name'' \<mapsto> GStr ''foo''] (scripted (\<lambda>k. DialFails))) =
     ('''', Some DialError) \<and>
   fst (snd (CreateContainer \<lparr>path = ''tcp://127.0.0.1:2375''\<rparr>
       [''Image'' \<mapsto> GStr ''busybox'', ''Name'' \<mapsto> GStr ''foo''] (scripted (\<lambda>k. DialFails))))
     ''Name'' = None \<and>
   fst (snd (CreateContainer \<lparr>path = ''tcp://127.0.0.1:2375''\<rparr>
       [''Image'' \<mapsto> GStr ''busybox'', ''Name'' \<mapsto> GStr ''foo''] (scripted (\<lambda>k. DialFails))))
     ''Image'' = Some (GStr ''busybox'')"
proof -
  have "fst (CreateContainer \<lparr>path = ''tcp://127.0.0.1:2375''\<rparr>
       [''Image'' \<mapsto> GStr ''busybox'', ''Name'' \<mapsto> GStr ''foo''] (scripted (\<lambda>k. DialFails))) =
     ('''', Some DialError)"
    by (simp add: CreateContainer_def run_simps)
  with CreateContainer_deletes_only_Name [of "\<lparr>path = ''tcp://127.0.0.1:2375''\<rparr>"
      "[''Image'' \<mapsto> GStr ''busybox'', ''Name'' \<mapsto> GStr ''foo'']" "scripted (\<lambda>k. DialFails)"]
  show ?thesis by simp
qed

subsection \<open>Running a container\<close>

text \<open>
  Claim C6. When \<open>CreateContainer\<close> returns an error, \<open>RunContainer\<close> returns the
  empty identifier with that error and leaves the world as \<open>CreateContainer\<close> left it:
  no request to a start endpoint is among the effects of the call.
\<close>

theorem RunContainer_stops_when_create_fails:
  assumes "CreateContainer docker config w = ((name, Some e), config1, w1)"
  shows "RunContainer docker config w = (('''', Some e), config1, w1) \<and>
     (\<exists>sfx. trace w1 = trace w @ sfx \<and>
        (\<forall>n body. (''POST'', start_uri n, body) \<notin> set (requests sfx)))"
proof -
  from assms have r: "RunContainer docker config w = (('''', Some e), config1, w1)"
    by (simp add: RunContainer_def)
  obtain sfx where s: "trace w1 = trace w @ sfx"
    "set (requests sfx) \<subseteq> {(''POST'', create_uri config, GMap (config(''Name'' := None)))}"
    using CreateContainer_trace [of docker config w] assms by auto
  have "\<forall>n body. (''POST'', start_uri n, body) \<notin> set (requests sfx)"
  proof (intro allI notI)
    fix n body
    assume "(''POST'', start_uri n, body) \<in> set (requests sfx)"
    with s(2) have "(''POST'', start_uri n, body) \<in>
        {(''POST'', create_uri config, GMap (config(''Name'' := None)))}" by (rule rev_subsetD [rotated])
    then have "create_uri config = start_uri n" by (simp only: singleton_iff prod.inject)
    with create_uri_not_start [of config n] show False by simp
  qed
  with r s(1) show ?thesis by (intro conjI exI [of _ sfx])
qed


theorem RunContainer_stops_when_create_fails_witness:
  "CreateContainer \<lparr>path = ''tcp://127.0.0.1:2375''\<rparr> [''Name'' \<mapsto> GStr ''foo'']
       (scripted (\<lambda>k. Responds 500 ''500 Internal Server Error'' [])) =
     (('''', Some (StatusError 500 ''500 Internal Server Error'')), Map.empty,
      (scripted (\<lambda>k. Responds 500 ''500 Internal Server Error'' []))
        \<lparr>dials := 1, trace := [Dial 0 ''tcp'' ''127.0.0.1:2375'',
            Send 0 ''POST'' ''/containers/create?name='' (GMap Map.empty)]\<rparr>) \<and>
   RunContainer \<lparr>path = ''tcp://127.0.0.1:2375''\<rparr> [''Name'' \<mapsto> GStr ''foo'']
       (scripted (\<lambda>k. Responds 500 ''500 Internal Server Error'' [])) =
     (('''', Some (StatusError 500 ''500 Internal Server Error'')), Map.empty,
      (scripted (\<lambda>k. Responds 500 ''500 Internal Server Error'' []))
        \<lparr>dials := 1, trace := [Dial 0 ''tcp'' ''127.0.0.1:2375'',
            Send 0 ''POST'' ''/containers/create?name='' (GMap Map.empty)]\<rparr>)"
proof -
  have c: "CreateContainer \<lparr>path = ''tcp://127.0.0.1:2375''\<rparr> [''Name'' \<mapsto> GStr ''foo'']
       (scripted (\<lambda>k. Responds 500 ''500 Internal Server Error'' [])) =
     (('''', Some (StatusError 500 ''500 Internal Server Error'')), Map.empty,
      (scripted (\<lambda>k. Responds 500 ''500 Internal Server Error'' []))
        \<lparr>dials := 1, trace := [Dial 0 ''tcp'' ''127.0.0.1:2375'',
            Send 0 ''POST'' ''/containers/create?name='' (GMap Map.empty)]\<rparr>)"
    by (simp add: CreateContainer_def run_simps)
  from RunContainer_stops_when_create_fails [OF c] c show ?thesis by blast
qed

text \<open>
  Claim C7, as amended. When \<open>CreateContainer\<close> succeeds with identifier \<open>name\<close>,
  \<open>RunContainer\<close> calls \<open>StartContainer\<close> with \<open>name\<close> and the \<^verbatim>\<open>HostConfig\<close>
  value of the map as the caller passed it (the nil interface when it has none), and
  returns \<open>name\<close> together with whatever \<open>StartContainer\<close> returns, error or not. The
  only requests of the call are the create request and the start request, both
  \<^verbatim>\<open>POST\<close>: nothing removes the container when the start fails.
\<close>

theorem RunContainer_returns_id_with_start_error:
  assumes "CreateContainer docker config w = ((name, None), config1, w1)"
  shows "RunContainer docker config w =
       ((name, fst (StartContainer docker name (map_index config ''HostConfig'') w1)), config1,
        snd (StartContainer docker name (map_index config ''HostConfig'') w1)) \<and>
     (\<exists>sfx. trace (snd (snd (RunContainer docker config w))) = trace w @ sfx \<and>
        set (requests sfx) \<subseteq>
          {(''POST'', create_uri config, GMap (config(''Name'' := None))),
           (''POST'', start_uri name, map_index config ''HostConfig'')})"
proof -
  let ?hc = "map_index config ''HostConfig''"
  from assms CreateContainer_deletes_Name [of docker config w]
  have "config1 = config(''Name'' := None)" by simp
  then have hc: "map_index config1 ''HostConfig'' = ?hc" by (simp add: map_index_def)
  with assms have r: "RunContainer docker config w =
       ((name, fst (StartContainer docker name ?hc w1)), config1,
        snd (StartContainer docker name ?hc w1))"
    by (simp add: RunContainer_def split: prod.split)
  obtain s1 where s1: "trace w1 = trace w @ s1"
    "set (requests s1) \<subseteq> {(''POST'', create_uri config, GMap (config(''Name'' := None)))}"
    using CreateContainer_trace [of docker config w] assms by auto
  obtain s2 where s2: "trace (snd (StartContainer docker name ?hc w1)) = trace w1 @ s2"
    "set (requests s2) \<subseteq> {(''POST'', start_uri name, ?hc)}"
    using StartContainer_trace by blast
  from r s1(1) s2(1) have "trace (snd (snd (RunContainer docker config w))) = trace w @ (s1 @ s2)"
    by simp
  moreover from s1(2) s2(2) have "set (requests (s1 @ s2)) \<subseteq>
      {(''POST'', create_uri config, GMap (config(''Name'' := None))),
       (''POST'', start_uri name, ?hc)}"
    unfolding requests_append set_append by blast
  ultimately show ?thesis using r by blast
qed

theorem RunContainer_returns_id_with_start_error_witness:
  "CreateContainer \<lparr>path = ''tcp://127.0.0.1:2375''\<rparr>
       [''HostConfig'' \<mapsto> GStr ''hc'', ''Name'' \<mapsto> GStr ''foo'']
       (scripted (\<lambda>k. if k = 0 then Responds 201 ''201 Created'' [JObject [(''Id'', ''abc'')]]
                       else Responds 500 ''500 Internal Server Error'' [])) =
     ((''abc'', None), [''HostConfig'' \<mapsto> GStr ''hc''],
      (scripted (\<lambda>k. if k = 0 then Responds 201 ''201 Created'' [JObject [(''Id'', ''abc'')]]
                       else Responds 500 ''500 Internal Server Error'' []))
        \<lparr>dials := 1, trace := [Dial 0 ''tcp'' ''127.0.0.1:2375'',
            Send 0 ''POST'' ''/containers/create?name='' (GMap [''HostConfig'' \<mapsto> GStr ''hc'']),
            CloseConn 0, CloseBody 0]\<rparr>) \<and>
   fst (RunContainer \<lparr>path = ''tcp://127.0.0.1:2375''\<rparr>
       [''HostConfig'' \<mapsto> GStr ''hc'', ''Name'' \<mapsto> GStr ''foo'']
       (scripted (\<lambda>k. if k = 0 then Responds 201 ''201 Created'' [JObject [(''Id'', ''abc'')]]
                       else Responds 500 ''500 Internal Server Error'' []))) =
     (''abc'', Some (StatusError 500 ''500 Internal Server Error'')) \<and>
   trace (snd (snd (RunContainer \<lparr>path = ''tcp://127.0.0.1:2375''\<rparr>
       [''HostConfig'' \<mapsto> GStr ''hc'', ''Name'' \<mapsto> GStr ''foo'']
       (scripted (\<lambda>k. if k = 0 then Responds 201 ''201 Created'' [JObject [(''Id'', ''abc'')]]
                       else Responds 500 ''500 Internal Server Error'' []))))) =
     [Dial 0 ''tcp'' ''127.0.0.1:2375'',
      Send 0 ''POST'' ''/containers/create?name='' (GMap [''HostConfig'' \<mapsto> GStr ''hc'']),
      CloseConn 0, CloseBody 0,
      Dial 1 ''tcp'' ''127.0.0.1:2375'',
      Send 1 ''POST'' ''/containers/abc/start'' (GStr ''hc'')]"
proof -
  have c: "CreateContainer \<lparr>path = ''tcp://127.0.0.1:2375''\<rparr>
       [''HostConfig'' \<mapsto> GStr ''hc'', ''Name'' \<mapsto> GStr ''foo'']
       (scripted (\<lambda>k. if k = 0 then Responds 201 ''201 Created'' [JObject [(''Id'', ''abc'')]]
                       else Responds 500 ''500 Internal Server Error'' [])) =
     ((''abc'', None), [''HostConfig'' \<mapsto> GStr ''hc''],
      (scripted (\<lambda>k. if k = 0 then Responds 201 ''201 Created'' [JObject [(''Id'', ''abc'')]]
                       else Responds 500 ''500 Internal Server Error'' []))
        \<lparr>dials := 1, trace := [Dial 0 ''tcp'' ''127.0.0.1:2375'',
            Send 0 ''POST'' ''/containers/create?name='' (GMap [''HostConfig'' \<mapsto> GStr ''hc'']),
            CloseConn 0, CloseBody 0]\<rparr>)"
    by (simp add: CreateContainer_def json_simps run_simps fun_upd_twist)
  from RunContainer_returns_id_with_start_error [OF c, THEN conjunct1] c show ?thesis
    by (simp add: StartContainer_def map_index_def run_simps)
qed

text \<open>
  Claim C7 as stated fails where the daemon creates the container \<^verbatim>\<open>abc\<close> and
  answers the start request with 500: the start fails, and the identifier returned is
  \<^verbatim>\<open>abc\<close> all the same.
\<close>

theorem RunContainer_returns_id_counterexample:
  "fst (RunContainer \<lparr>path = ''tcp://127.0.0.1:2375''\<rparr> Map.empty
       (scripted (\<lambda>k. if k = 0 then Responds 201 ''201 Created'' [JObject [(''Id'', ''abc'')]]
                       else Responds 500 ''500 Internal Server Error'' []))) =
     (''abc'', Some (StatusError 500 ''500 Internal Server Error'')) \<and>
   fst (StartContainer \<lparr>path = ''tcp://127.0.0.1:2375''\<rparr> ''abc'' GNil
       (scripted (\<lambda>k. Responds 500 ''500 Internal Server Error'' []))) =
     Some (StatusError 500 ''500 Internal Server Error'')"
  by (simp add: RunContainer_def CreateContainer_def StartContainer_def json_simps
      map_index_def run_simps)


subsection \<open>The event stream\<close>

lemma eventLoop_stuck:
  "sticky dec = Some e \<Longrightarrow> e \<noteq> EOF \<Longrightarrow>
   eventLoop n dec eventChan w =
     OutOfFuel (eventChan, w\<lparr>trace := trace w @ replicate n (LogCannotDecode e)\<rparr>)"
proof (induction n arbitrary: w)
  case 0
  show ?case by simp
next
  case (Suc n)
  from Suc.prems have "Decode dec = (Inl e, dec)" by (simp add: Decode_def)
  with Suc.prems Suc.IH [of "emit (LogCannotDecode e) w"] show ?case
    by (simp add: emit_def replicate_app_Cons_same)
qed

text \<open>
  Claim C8, at the body of a valid event, bytes that are not JSON, and a second valid
  event. The first event is sent. The decoder then stores the syntax error, every later
  \<^verbatim>\<open>Decode\<close> returns it again, and the loop logs it and goes round: however
  much fuel is added to the two iterations that reach the error, the run has not
  returned, the channel holds the first event only and is not closed, and the trace
  holds one log line per further iteration.
\<close>

theorem GetEvents_spins_on_syntax_error:
  "GetEvents (Suc (Suc n)) \<lparr>path = ''tcp://127.0.0.1:2375''\<rparr>
     (scripted (\<lambda>k. Responds 200 ''200 OK''
        [JObject [(''id'', ''a''), (''status'', ''start'')], JSyntax,
         JObject [(''id'', ''b''), (''status'', ''die'')]])) =
   OutOfFuel ([\<lparr>ContainerId = ''a'', Status = ''start''\<rparr>], False,
     (scripted (\<lambda>k. Responds 200 ''200 OK''
        [JObject [(''id'', ''a''), (''status'', ''start'')], JSyntax,
         JObject [(''id'', ''b''), (''status'', ''die'')]]))
       \<lparr>dials := 1,
        trace := [Dial 0 ''tcp'' ''127.0.0.1:2375'', Send 0 ''GET'' ''/events'' GNil]
                   @ replicate (Suc n) (LogCannotDecode SyntaxError)\<rparr>)"
  by (simp add: GetEvents_def json_simps run_simps eventLoop_stuck)


text \<open>
  A unit that is well-formed JSON of the wrong shape is skipped as claim C8 says: the
  decoder has consumed it, and the next call reads the next unit.
\<close>

lemma GetEvents_skips_ill_typed_unit:
  "GetEvents 4 \<lparr>path = ''tcp://127.0.0.1:2375''\<rparr>
     (scripted (\<lambda>k. Responds 200 ''200 OK''
        [JObject [(''id'', ''a''), (''status'', ''start'')], JMismatch,
         JObject [(''id'', ''b''), (''status'', ''die'')]])) =
   Returned ([\<lparr>ContainerId = ''a'', Status = ''start''\<rparr>, \<lparr>ContainerId = ''b'', Status = ''die''\<rparr>],
     True,
     (scripted (\<lambda>k. Responds 200 ''200 OK''
        [JObject [(''id'', ''a''), (''status'', ''start'')], JMismatch,
         JObject [(''id'', ''b''), (''status'', ''die'')]]))
       \<lparr>dials := 1,
        trace := [Dial 0 ''tcp'' ''127.0.0.1:2375'', Send 0 ''GET'' ''/events'' GNil,
                  LogCannotDecode UnmarshalTypeError, LogClosing]\<rparr>)"
  by (simp add: GetEvents_def json_simps run_simps numeral_eq_Suc)

text \<open>
  In general: a body of objects and ill-typed values, without such bytes, is read to its
  end, given fuel for one iteration per unit and one more, and the events sent are those
  of its objects in order.
\<close>

lemma eventLoop_returns:
  "JSyntax \<notin> set us \<Longrightarrow> length us < n \<Longrightarrow>
   \<exists>w1. eventLoop n \<lparr>input = us, sticky = None\<rparr> eventChan w =
          Returned (eventChan @ events_of us, w1)"
proof (induction us arbitrary: n eventChan w)
  case Nil
  then obtain m where "n = Suc m" by (cases n) auto
  then show ?case by (simp add: Decode_def)
next
  case (Cons u us)
  then obtain m where n: "n = Suc m" and m: "length us < m" by (cases n) auto
  from Cons.prems have s: "JSyntax \<notin> set us" and u: "u \<noteq> JSyntax" by auto
  show ?case
  proof (cases u)
    case (JObject kvs)
    with Cons.IH [OF s m, of "eventChan @ [toEvent kvs]" w] n show ?thesis
      by (simp add: Decode_def)
  next
    case JMismatch
    with Cons.IH [OF s m, of eventChan "emit (LogCannotDecode UnmarshalTypeError) w"] n
    show ?thesis by (simp add: Decode_def)
  next
    case JSyntax
    with u show ?thesis by simp
  qed
qed

subsection \<open>The root path of the daemon\<close>

lemma RootPath_rows_ok:
  "\<forall>r\<in>set rows. 2 \<le> length r \<Longrightarrow>
   RootPath_rows rows =
     Inr (case find (\<lambda>r. r ! 0 = ''Root Dir'') rows of None \<Rightarrow> '''' | Some r \<Rightarrow> r ! 1)"
  by (induction rows) (auto simp: at_index_def)

lemma RootPath_rows_panics_iff:
  "RootPath_rows rows = Inl IndexOutOfRange \<longleftrightarrow>
     (\<exists>pre r post. rows = pre @ r # post \<and>
        (\<forall>p\<in>set pre. p \<noteq> [] \<and> p ! 0 \<noteq> ''Root Dir'') \<and> (r = [] \<or> r = [''Root Dir'']))"
proof (induction rows)
  case Nil
  show ?case by simp
next
  case (Cons i rows)
  show ?case
  proof (cases "i = [] \<or> i = [''Root Dir'']")
    case True
    then have "RootPath_rows (i # rows) = Inl IndexOutOfRange"
      by (auto simp: at_index_def)
    moreover from True have "\<exists>pre r post. i # rows = pre @ r # post \<and>
        (\<forall>p\<in>set pre. p \<noteq> [] \<and> p ! 0 \<noteq> ''Root Dir'') \<and> (r = [] \<or> r = [''Root Dir''])"
      by (intro exI [of _ "[]"] exI [of _ i] exI [of _ rows]) simp
    ultimately show ?thesis by simp
  next
    case False
    show ?thesis
    proof (cases "i ! 0 = ''Root Dir''")
      case True
      with False have l: "2 \<le> length i"
        by (cases i; cases "tl i") auto
      with True have "RootPath_rows (i # rows) \<noteq> Inl IndexOutOfRange"
        by (auto simp: at_index_def)
      moreover have "\<not> (\<exists>pre r post. i # rows = pre @ r # post \<and>
        (\<forall>p\<in>set pre. p \<noteq> [] \<and> p ! 0 \<noteq> ''Root Dir'') \<and> (r = [] \<or> r = [''Root Dir'']))"
      proof
        assume "\<exists>pre r post. i # rows = pre @ r # post \<and>
          (\<forall>p\<in>set pre. p \<noteq> [] \<and> p ! 0 \<noteq> ''Root Dir'') \<and> (r = [] \<or> r = [''Root Dir''])"
        then obtain pre r post where e: "i # rows = pre @ r # post"
          and p: "\<forall>p\<in>set pre. p \<noteq> [] \<and> p ! 0 \<noteq> ''Root Dir''"
          and r: "r = [] \<or> r = [''Root Dir'']" by blast
        show False
        proof (cases pre)
          case Nil
          with e have "i = r" by simp
          with r False show False by simp
        next
          case (Cons q qs)
          with e have "i = q" by simp
          with p Cons True show False by simp
        qed
      qed
      ultimately show ?thesis by simp
    next
      case nr: False
      with False have ne: "i \<noteq> []" by simp
      with nr have step: "RootPath_rows (i # rows) = RootPath_rows rows"
        by (simp add: at_index_def)
      have "(\<exists>pre r post. i # rows = pre @ r # post \<and>
          (\<forall>p\<in>set pre. p \<noteq> [] \<and> p ! 0 \<noteq> ''Root Dir'') \<and> (r = [] \<or> r = [''Root Dir''])) \<longleftrightarrow>
        (\<exists>pre r post. rows = pre @ r # post \<and>
          (\<forall>p\<in>set pre. p \<noteq> [] \<and> p ! 0 \<noteq> ''Root Dir'') \<and> (r = [] \<or> r = [''Root Dir'']))"
        (is "?L \<longleftrightarrow> ?R")
      proof
        assume ?L
        then obtain pre r post where e: "i # rows = pre @ r # post"
          and p: "\<forall>p\<in>set pre. p \<noteq> [] \<and> p ! 0 \<noteq> ''Root Dir''"
          and r: "r = [] \<or> r = [''Root Dir'']" by blast
        show ?R
        proof (cases pre)
          case Nil
          with e have "i = r" by simp
          with r \<open>\<not> (i = [] \<or> i = [''Root Dir''])\<close> show ?thesis by simp
        next
          case (Cons q qs)
          with e have "rows = qs @ r # post" by simp
          moreover from p Cons have "\<forall>p\<in>set qs. p \<noteq> [] \<and> p ! 0 \<noteq> ''Root Dir''" by simp
          ultimately show ?thesis using r by blast
        qed
      next
        assume ?R
        then obtain pre r post where e: "rows = pre @ r # post"
          and p: "\<forall>p\<in>set pre. p \<noteq> [] \<and> p ! 0 \<noteq> ''Root Dir''"
          and r: "r = [] \<or> r = [''Root Dir'']" by blast
        from e have "i # rows = (i # pre) @ r # post" by simp
        moreover from p ne nr have "\<forall>p\<in>set (i # pre). p \<noteq> [] \<and> p ! 0 \<noteq> ''Root Dir''" by simp
        ultimately show ?L using r by blast
      qed
      with step Cons.IH show ?thesis by simp
    qed
  qed
qed

text \<open>
  Claim C9, as amended. When every row of \<^verbatim>\<open>DriverStatus\<close> has at least two
  elements, \<open>RootPath\<close> returns the second element of the first row whose first element
  is \<^verbatim>\<open>Root Dir\<close>, and the empty string when there is no such row; it does not
  panic. In general it panics exactly when the loop reaches, past rows that are not empty
  and do not start with \<^verbatim>\<open>Root Dir\<close>, an empty row (\<^verbatim>\<open>i[0]\<close>) or the
  one-element row \<^verbatim>\<open>["Root Dir"]\<close> (\<^verbatim>\<open>i[1]\<close>).
\<close>

theorem RootPath_panics_exactly_at_short_rows:
  "((\<forall>r\<in>set (DriverStatus d). 2 \<le> length r) \<longrightarrow>
      RootPath d =
        Inr (case find (\<lambda>r. r ! 0 = ''Root Dir'') (DriverStatus d) of
               None \<Rightarrow> '''' | Some r \<Rightarrow> r ! 1)) \<and>
   (RootPath d = Inl IndexOutOfRange \<longleftrightarrow>
      (\<exists>pre r post. DriverStatus d = pre @ r # post \<and>
         (\<forall>p\<in>set pre. p \<noteq> [] \<and> p ! 0 \<noteq> ''Root Dir'') \<and> (r = [] \<or> r = [''Root Dir''])))"
  by (simp add: RootPath_def RootPath_rows_ok RootPath_rows_panics_iff)

theorem RootPath_panics_exactly_at_short_rows_witness:
  "RootPath (info [[''Pool Name'', ''docker''], [''Root Dir'', ''/var/lib/docker''],
                   [''Root Dir'', ''/other'']]) = Inr ''/var/lib/docker'' \<and>
   RootPath (info [[''Pool Name'', ''docker'']]) = Inr '''' \<and>
   RootPath (info [[''Pool Name''], [''Root Dir'']]) = Inl IndexOutOfRange \<and>
   RootPath (info [[''Pool Name'', ''docker''], [], [''Root Dir'', ''/var/lib/docker'']]) =
     Inl IndexOutOfRange"
proof -
  have a: "RootPath (info [[''Pool Name'', ''docker''], [''Root Dir'', ''/var/lib/docker''],
                   [''Root Dir'', ''/other'']]) = Inr ''/var/lib/docker''"
    using RootPath_panics_exactly_at_short_rows [of "info [[''Pool Name'', ''docker''],
        [''Root Dir'', ''/var/lib/docker''], [''Root Dir'', ''/other'']]", THEN conjunct1]
    by (simp add: info_def)
  have b: "RootPath (info [[''Pool Name'', ''docker'']]) = Inr ''''"
    using RootPath_panics_exactly_at_short_rows [of "info [[''Pool Name'', ''docker'']]",
        THEN conjunct1]
    by (simp add: info_def)
  have "\<exists>pre r post. DriverStatus (info [[''Pool Name''], [''Root Dir'']]) = pre @ r # post \<and>
      (\<forall>p\<in>set pre. p \<noteq> [] \<and> p ! 0 \<noteq> ''Root Dir'') \<and> (r = [] \<or> r = [''Root Dir''])"
    by (intro exI [of _ "[[''Pool Name'']]"] exI [of _ "[''Root Dir'']"] exI [of _ "[]"])
      (simp add: info_def)
  then have c: "RootPath (info [[''Pool Name''], [''Root Dir'']]) = Inl IndexOutOfRange"
    by (rule RootPath_panics_exactly_at_short_rows [THEN conjunct2, THEN iffD2])
  have "\<exists>pre r post. DriverStatus (info [[''Pool Name'', ''docker''], [],
        [''Root Dir'', ''/var/lib/docker'']]) = pre @ r # post \<and>
      (\<forall>p\<in>set pre. p \<noteq> [] \<and> p ! 0 \<noteq> ''Root Dir'') \<and> (r = [] \<or> r = [''Root Dir''])"
    by (intro exI [of _ "[[''Pool Name'', ''docker'']]"] exI [of _ "[]"]
        exI [of _ "[[''Root Dir'', ''/var/lib/docker'']]"])
      (simp add: info_def)
  then have d: "RootPath (info [[''Pool Name'', ''docker''], [],
        [''Root Dir'', ''/var/lib/docker'']]) = Inl IndexOutOfRange"
    by (rule RootPath_panics_exactly_at_short_rows [THEN conjunct2, THEN iffD2])
  from a b c d show ?thesis by blast
qed

text \<open>
  Claim C9 as stated fails at the single row \<^verbatim>\<open>["Pool Name"]\<close>: the row has one
  element, so the precondition does not hold, and the call returns the empty string
  without a panic (\<^verbatim>\<open>i[1]\<close> is never read).
\<close>

theorem RootPath_short_row_counterexample:
  "length [''Pool Name''] < 2 \<and> RootPath (info [[''Pool Name'']]) = Inr ''''"
  by (simp add: RootPath_def info_def at_index_def)

end
